theory Spec2Isabelle
  imports Complex_Main "HOL-Library.Char_ord" "HOL-Library.List_Lexorder" "HOL-Library.Multiset"
begin

section \<open>Data model\<close>

text \<open>
  The program (\<^verbatim>\<open>main.py\<close>) reads a table of review scores, computes the mean score per
  category for fixed combinations of job track (\<^verbatim>\<open>CARGO\<close>) and level (\<^verbatim>\<open>NIVEL\<close>), builds five
  grouped bar charts and writes them, rendered into an HTML template, to a file.

  A Python \<^verbatim>\<open>str\<close> is modelled by the list of bytes of its UTF-8 encoding. Equality of
  strings is equality of these lists, and the order of \<^verbatim>\<open>sorted\<close> on strings (code point by
  code point, a proper prefix first) is the lexicographic order of the byte lists, since
  UTF-8 preserves the order of code points.

  A row of the table carries the four columns the program reads. A score is the real number
  that its float64 value denotes; missing cells are not modelled. The program does no
  arithmetic on scores of its own: the mean of a group is computed by pandas, in float64, and
  is the parameter \<open>mean\<close> of the model, a function from the scores of a group, in the
  order of their rows, to the value pandas returns for them.
\<close>

record row =
  NIVEL :: string
  CARGO :: string
  CATEGORIA :: string
  PONTUACAO :: real

type_synonym dataframe = "row list"

text \<open>A Python \<^verbatim>\<open>dict\<close> with string keys, in insertion order.\<close>

type_synonym 'v dict = "(string \<times> 'v) list"

definition dict_get :: "'v dict \<Rightarrow> string \<Rightarrow> 'v \<Rightarrow> 'v" where
  "dict_get d k dflt = (case map_of d k of None \<Rightarrow> dflt | Some v \<Rightarrow> v)"

text \<open>
  \<^verbatim>\<open>DataFrame\<close> objects live in a store and are passed by reference. The store is a list
  of frames, a reference is an index into it, and a new object is appended at the end.
  The file system is a map from paths to file contents, together with the set of paths
  that can be opened for writing. The random identifiers that \<^verbatim>\<open>uuid.uuid4()\<close> returns are
  taken from the world: \<open>entropy w n\<close> is the identifier of draw number \<open>n\<close>, and
  \<open>drawn w\<close> counts the draws made so far.
\<close>

type_synonym frame_ref = nat

record world =
  heap :: "dataframe list"
  files :: "string \<rightharpoonup> string"
  writable :: "string \<Rightarrow> bool"
  entropy :: "nat \<Rightarrow> string"
  drawn :: nat

datatype py_error =
    FileNotFoundError string
  | OSError string
  | TemplateError string

section \<open>Library operations\<close>

text \<open>
  \<^verbatim>\<open>Series.unique()\<close>: the distinct values in order of first appearance.
\<close>

fun unique_from :: "'a list \<Rightarrow> 'a list \<Rightarrow> 'a list" where
  "unique_from seen [] = []"
| "unique_from seen (v # vs) =
     (if v \<in> set seen then unique_from seen vs else v # unique_from (v # seen) vs)"

definition unique :: "'a list \<Rightarrow> 'a list" where
  "unique vs = unique_from [] vs"

text \<open>Python's \<^verbatim>\<open>sorted\<close> on a list of strings.\<close>

definition sorted_py :: "string list \<Rightarrow> string list" where
  "sorted_py vs = sort vs"

text \<open>
  Boolean indexing \<^verbatim>\<open>data[mask]\<close>: a new frame holding the rows of \<^verbatim>\<open>data\<close> that satisfy the
  mask, in their order. The frame read is left as it is.
\<close>

definition boolean_index :: "(row \<Rightarrow> bool) \<Rightarrow> frame_ref \<Rightarrow> world \<Rightarrow> frame_ref \<times> world" where
  "boolean_index keep data w =
     (length (heap w), w\<lparr>heap := heap w @ [filter keep (heap w ! data)]\<rparr>)"

text \<open>
  \<^verbatim>\<open>frame.groupby(column)['PONTUACAO'].mean().to_dict()\<close>: one entry per distinct value of
  the grouping column, the groups in sorted order of their key, each with what \<open>mean\<close>
  returns on the scores of the group's rows.
\<close>

definition groupby_mean ::
  "(real list \<Rightarrow> real) \<Rightarrow> (row \<Rightarrow> string) \<Rightarrow> dataframe \<Rightarrow> real dict" where
  "groupby_mean mean category_column frame =
     map (\<lambda>c. (c, mean (map PONTUACAO (filter (\<lambda>r. category_column r = c) frame))))
       (sorted_py (unique (map category_column frame)))"

definition uuid4 :: "world \<Rightarrow> string \<times> world" where
  "uuid4 w = (entropy w (drawn w), w\<lparr>drawn := drawn w + 1\<rparr>)"

text \<open>
  A Plotly figure: the bar traces added so far and the layout. \<^verbatim>\<open>go.Figure()\<close> has no
  trace and an empty layout.
\<close>

record bar =
  bar_x :: "string list"
  bar_y :: "real list"
  bar_name :: string

record layout =
  layout_title :: "string option"
  layout_yaxis_title :: "string option"
  layout_barmode :: "string option"
  layout_xaxis_tickangle :: "int option"

record figure =
  fig_data :: "bar list"
  fig_layout :: layout

definition Figure :: figure where
  "Figure = \<lparr>fig_data = [],
     fig_layout = \<lparr>layout_title = None, layout_yaxis_title = None,
       layout_barmode = None, layout_xaxis_tickangle = None\<rparr>\<rparr>"

definition add_trace :: "bar \<Rightarrow> figure \<Rightarrow> figure" where
  "add_trace trace fig = fig\<lparr>fig_data := fig_data fig @ [trace]\<rparr>"

definition update_layout :: "string \<Rightarrow> string \<Rightarrow> string \<Rightarrow> int \<Rightarrow> figure \<Rightarrow> figure" where
  "update_layout title yaxis_title barmode xaxis_tickangle fig =
     fig\<lparr>fig_layout := (fig_layout fig)\<lparr>layout_title := Some title,
       layout_yaxis_title := Some yaxis_title, layout_barmode := Some barmode,
       layout_xaxis_tickangle := Some xaxis_tickangle\<rparr>\<rparr>"

text \<open>
  Plotly's \<^verbatim>\<open>to_html(fig, full_html=False)\<close>: no \<^verbatim>\<open>div_id\<close> is passed, so the library
  draws a \<^verbatim>\<open>uuid4\<close> and uses it as the identifier of the chart's \<^verbatim>\<open>div\<close> element. The
  text it produces from the figure and that identifier is the parameter \<open>markup\<close>.
\<close>

definition to_html :: "(figure \<Rightarrow> string \<Rightarrow> 'h) \<Rightarrow> figure \<Rightarrow> world \<Rightarrow> 'h \<times> world" where
  "to_html markup fig w = (let (div_id, w) = uuid4 w in (markup fig div_id, w))"

section \<open>The program\<close>

definition read_template :: "string \<Rightarrow> world \<Rightarrow> py_error + string" where
  "read_template template_path w =
     (case files w template_path of
        None \<Rightarrow> Inl (FileNotFoundError template_path)
      | Some content \<Rightarrow> Inr content)"

text \<open>
  \<^verbatim>\<open>calculate_mean_scores\<close>: the rows of the given level are selected into a new frame, which
  is grouped by the category column. The column is given by its selector.
\<close>

definition calculate_mean_scores ::
  "(real list \<Rightarrow> real) \<Rightarrow> frame_ref \<Rightarrow> string \<Rightarrow> (row \<Rightarrow> string) \<Rightarrow> world \<Rightarrow>
   real dict \<times> world" where
  "calculate_mean_scores mean data level category_column w =
     (let (selected, w) = boolean_index (\<lambda>r. NIVEL r = level) data w;
          mean_scores = groupby_mean mean category_column (heap w ! selected)
      in (mean_scores, w))"

text \<open>
  \<^verbatim>\<open>create_bar_chart\<close> builds a figure (lines 49 to 57) and returns its serialisation by
  \<^verbatim>\<open>to_html\<close> (line 58). The figure is \<open>create_bar_chart_figure\<close>.
\<close>

definition create_bar_chart_figure ::
  "real dict \<Rightarrow> real dict \<Rightarrow> string list \<Rightarrow> string \<Rightarrow> string \<Rightarrow> figure" where
  "create_bar_chart_figure data1 data2 labels title yaxis_title =
     (let fig = Figure;
          fig = add_trace \<lparr>bar_x = labels,
                  bar_y = map (\<lambda>label. dict_get data1 label 0) labels,
                  bar_name = ''Juniors''\<rparr> fig;
          fig = add_trace \<lparr>bar_x = labels,
                  bar_y = map (\<lambda>label. dict_get data2 label 0) labels,
                  bar_name = ''Seniors''\<rparr> fig;
          fig = update_layout title yaxis_title ''group'' (- 45) fig
      in fig)"

definition create_bar_chart ::
  "(figure \<Rightarrow> string \<Rightarrow> 'h) \<Rightarrow> real dict \<Rightarrow> real dict \<Rightarrow> string list \<Rightarrow> string \<Rightarrow> string \<Rightarrow>
   world \<Rightarrow> 'h \<times> world" where
  "create_bar_chart markup data1 data2 labels title yaxis_title w =
     to_html markup (create_bar_chart_figure data1 data2 labels title yaxis_title) w"

definition create_senior_comparison_chart_figure ::
  "real dict \<Rightarrow> real dict \<Rightarrow> string list \<Rightarrow> string \<Rightarrow> string \<Rightarrow> figure" where
  "create_senior_comparison_chart_figure data_senior_data data_senior_analytics categories
       title yaxis_title =
     (let fig = Figure;
          fig = add_trace \<lparr>bar_x = categories,
                  bar_y = map (\<lambda>cat. dict_get data_senior_data cat 0) categories,
                  bar_name = ''Data Engineers Senior''\<rparr> fig;
          fig = add_trace \<lparr>bar_x = categories,
                  bar_y = map (\<lambda>cat. dict_get data_senior_analytics cat 0) categories,
                  bar_name = ''Analytics Engineers Senior''\<rparr> fig;
          fig = update_layout title yaxis_title ''group'' (- 45) fig
      in fig)"

definition create_senior_comparison_chart ::
  "(figure \<Rightarrow> string \<Rightarrow> 'h) \<Rightarrow> real dict \<Rightarrow> real dict \<Rightarrow> string list \<Rightarrow> string \<Rightarrow> string \<Rightarrow>
   world \<Rightarrow> 'h \<times> world" where
  "create_senior_comparison_chart markup data_senior_data data_senior_analytics categories
       title yaxis_title w =
     to_html markup (create_senior_comparison_chart_figure data_senior_data
       data_senior_analytics categories title yaxis_title) w"

text \<open>The string literals of \<^verbatim>\<open>generate_interactive_report\<close> with characters outside ASCII.\<close>

definition Senior :: string where
  "Senior = ''S'' @ [CHR 0xC3, CHR 0xAA] @ ''nior''"

definition Pontuacao_Media :: string where
  "Pontuacao_Media =
     ''Pontua'' @ [CHR 0xC3, CHR 0xA7, CHR 0xC3, CHR 0xA3] @ ''o M'' @ [CHR 0xC3, CHR 0xA9] @ ''dia''"

definition Comparacao_de :: string where
  "Comparacao_de = ''Compara'' @ [CHR 0xC3, CHR 0xA7, CHR 0xC3, CHR 0xA3] @ ''o de ''"

text \<open>Opening a file for writing and writing its whole content.\<close>

definition write_file :: "string \<Rightarrow> string \<Rightarrow> world \<Rightarrow> (py_error + unit) \<times> world" where
  "write_file path content w =
     (if writable w path then (Inr (), w\<lparr>files := (files w)(path \<mapsto> content)\<rparr>)
      else (Inl (OSError path), w))"

text \<open>
  \<^verbatim>\<open>generate_interactive_report\<close>. The Jinja call \<^verbatim>\<open>Template(content).render(...)\<close> is the
  parameter \<open>render\<close>, applied to the template text and the five keyword bindings; it may
  fail. The result is the value returned or the exception raised, with the world the call
  leaves behind.
\<close>

definition generate_interactive_report ::
  "(real list \<Rightarrow> real) \<Rightarrow> (figure \<Rightarrow> string \<Rightarrow> 'h) \<Rightarrow>
   (string \<Rightarrow> (string \<times> 'h) list \<Rightarrow> py_error + string) \<Rightarrow>
   frame_ref \<Rightarrow> string \<Rightarrow> string \<Rightarrow> world \<Rightarrow> (py_error + string) \<times> world" where
  "generate_interactive_report mean markup render data template_path output_path w =
     (case read_template template_path w of
        Inl e \<Rightarrow> (Inl e, w)
      | Inr template_content \<Rightarrow>
         (let categories = sorted_py (unique (map CATEGORIA (heap w ! data)));
              (dados, w) = boolean_index (\<lambda>r. CARGO r = ''ENGENHARIA DE DADOS'') data w;
              (junior_data, w) = calculate_mean_scores mean dados ''Junior'' CATEGORIA w;
              (dados, w) = boolean_index (\<lambda>r. CARGO r = ''ENGENHARIA DE DADOS'') data w;
              (senior_data, w) = calculate_mean_scores mean dados Senior CATEGORIA w;
              (analytics, w) = boolean_index (\<lambda>r. CARGO r = ''ENGENHARIA DE ANALYTICS'') data w;
              (junior_analytics, w) = calculate_mean_scores mean analytics ''Junior'' CATEGORIA w;
              (analytics, w) = boolean_index (\<lambda>r. CARGO r = ''ENGENHARIA DE ANALYTICS'') data w;
              (senior_analytics, w) = calculate_mean_scores mean analytics Senior CATEGORIA w;
              (dados, w) = boolean_index (\<lambda>r. CARGO r = ''ENGENHARIA DE DADOS'') data w;
              (pleno_data, w) = calculate_mean_scores mean dados ''Pleno'' CATEGORIA w;
              (analytics, w) = boolean_index (\<lambda>r. CARGO r = ''ENGENHARIA DE ANALYTICS'') data w;
              (pleno_analytics, w) = calculate_mean_scores mean analytics ''Pleno'' CATEGORIA w;
              (junior_senior_chart_data, w) = create_bar_chart markup
                junior_data senior_data categories
                (Comparacao_de @ Pontuacao_Media @ '': Juniors vs Seniors (Data Engineers)'')
                Pontuacao_Media w;
              (pleno_senior_chart_data, w) = create_bar_chart markup
                pleno_data senior_data categories
                (Comparacao_de @ Pontuacao_Media @ '': Plenos vs Seniors (Data Engineers)'')
                Pontuacao_Media w;
              (junior_senior_chart_analytics, w) = create_bar_chart markup
                junior_analytics senior_analytics categories
                (Comparacao_de @ Pontuacao_Media @ '': Juniors vs Seniors (Analytics Engineers)'')
                Pontuacao_Media w;
              (pleno_senior_chart_analytics, w) = create_bar_chart markup
                pleno_analytics senior_analytics categories
                (Comparacao_de @ Pontuacao_Media @ '': Plenos vs Seniors (Analytics Engineers)'')
                Pontuacao_Media w;
              (senior_comparison_chart, w) = create_senior_comparison_chart markup
                senior_data senior_analytics categories
                (Comparacao_de @ Pontuacao_Media @ '': Seniors (Data vs Analytics Engineers)'')
                Pontuacao_Media w
          in case render template_content
                 [(''junior_senior_chart_data'', junior_senior_chart_data),
                  (''pleno_senior_chart_data'', pleno_senior_chart_data),
                  (''junior_senior_chart_analytics'', junior_senior_chart_analytics),
                  (''pleno_senior_chart_analytics'', pleno_senior_chart_analytics),
                  (''senior_comparison_chart'', senior_comparison_chart)] of
               Inl e \<Rightarrow> (Inl e, w)
             | Inr html_report \<Rightarrow>
                (case write_file output_path html_report w of
                   (Inl e, w) \<Rightarrow> (Inl e, w)
                 | (Inr _, w) \<Rightarrow> (Inr output_path, w))))"

text \<open>
  The outcome of a run whose template was read, written as a function of the table: the six
  mappings, the five charts over the sorted categories, each serialised with the next
  identifier drawn, the rendering and the write. The world \<open>w'\<close> is the one the
  aggregations and the draws leave behind. Lemma \<open>generate_interactive_report_run\<close> below
  shows that this is what the program computes.
\<close>

definition report_figures :: "(real list \<Rightarrow> real) \<Rightarrow> dataframe \<Rightarrow> figure list" where
  "report_figures mean table =
       (let scores = (\<lambda>track level. groupby_mean mean CATEGORIA
              (filter (\<lambda>r. NIVEL r = level) (filter (\<lambda>r. CARGO r = track) table)));
            categories = sorted_py (unique (map CATEGORIA table));
            junior_data = scores ''ENGENHARIA DE DADOS'' ''Junior'';
            senior_data = scores ''ENGENHARIA DE DADOS'' Senior;
            junior_analytics = scores ''ENGENHARIA DE ANALYTICS'' ''Junior'';
            senior_analytics = scores ''ENGENHARIA DE ANALYTICS'' Senior;
            pleno_data = scores ''ENGENHARIA DE DADOS'' ''Pleno'';
            pleno_analytics = scores ''ENGENHARIA DE ANALYTICS'' ''Pleno''
        in [create_bar_chart_figure junior_data senior_data categories
              (Comparacao_de @ Pontuacao_Media @ '': Juniors vs Seniors (Data Engineers)'')
              Pontuacao_Media,
            create_bar_chart_figure pleno_data senior_data categories
              (Comparacao_de @ Pontuacao_Media @ '': Plenos vs Seniors (Data Engineers)'')
              Pontuacao_Media,
            create_bar_chart_figure junior_analytics senior_analytics categories
              (Comparacao_de @ Pontuacao_Media @ '': Juniors vs Seniors (Analytics Engineers)'')
              Pontuacao_Media,
            create_bar_chart_figure pleno_analytics senior_analytics categories
              (Comparacao_de @ Pontuacao_Media @ '': Plenos vs Seniors (Analytics Engineers)'')
              Pontuacao_Media,
            create_senior_comparison_chart_figure senior_data senior_analytics categories
              (Comparacao_de @ Pontuacao_Media @ '': Seniors (Data vs Analytics Engineers)'')
              Pontuacao_Media])"

text \<open>
  The frames a run allocates, in order: for each of the six aggregations, the selection of
  the track and then the selection of the level from it.
\<close>

definition report_frames :: "dataframe \<Rightarrow> dataframe list" where
  "report_frames table =
     concat (map (\<lambda>(track, level).
         [filter (\<lambda>r. CARGO r = track) table,
          filter (\<lambda>r. NIVEL r = level) (filter (\<lambda>r. CARGO r = track) table)])
       [(''ENGENHARIA DE DADOS'', ''Junior''), (''ENGENHARIA DE DADOS'', Senior),
        (''ENGENHARIA DE ANALYTICS'', ''Junior''), (''ENGENHARIA DE ANALYTICS'', Senior),
        (''ENGENHARIA DE DADOS'', ''Pleno''), (''ENGENHARIA DE ANALYTICS'', ''Pleno'')])"

definition report_outcome ::
  "(real list \<Rightarrow> real) \<Rightarrow> (figure \<Rightarrow> string \<Rightarrow> 'h) \<Rightarrow>
   (string \<Rightarrow> (string \<times> 'h) list \<Rightarrow> py_error + string) \<Rightarrow>
   string \<Rightarrow> string \<Rightarrow> dataframe \<Rightarrow> world \<Rightarrow> world \<Rightarrow> (py_error + string) \<times> world" where
  "report_outcome mean markup render template_content output_path table w w' =
     (case render template_content
        [(''junior_senior_chart_data'',
            markup (report_figures mean table ! 0) (entropy w (drawn w))),
         (''pleno_senior_chart_data'',
            markup (report_figures mean table ! 1) (entropy w (drawn w + 1))),
         (''junior_senior_chart_analytics'',
            markup (report_figures mean table ! 2) (entropy w (drawn w + 2))),
         (''pleno_senior_chart_analytics'',
            markup (report_figures mean table ! 3) (entropy w (drawn w + 3))),
         (''senior_comparison_chart'',
            markup (report_figures mean table ! 4) (entropy w (drawn w + 4)))] of
        Inl e \<Rightarrow> (Inl e, w')
      | Inr html_report \<Rightarrow>
          if writable w output_path
          then (Inr output_path, w'\<lparr>files := (files w)(output_path \<mapsto> html_report)\<rparr>)
          else (Inl (OSError output_path), w'))"

section \<open>A small table\<close>

text \<open>
  A table of four rows and a world holding it as frame 0, with a template file and every
  path writable. The theorems below are instantiated at this world.
\<close>

definition example_table :: dataframe where
  "example_table =
     [\<lparr>NIVEL = ''Junior'', CARGO = ''ENGENHARIA DE DADOS'', CATEGORIA = ''SQL'', PONTUACAO = 10\<rparr>,
      \<lparr>NIVEL = ''Junior'', CARGO = ''ENGENHARIA DE DADOS'', CATEGORIA = ''SQL'', PONTUACAO = 20\<rparr>,
      \<lparr>NIVEL = Senior, CARGO = ''ENGENHARIA DE ANALYTICS'', CATEGORIA = ''Python'', PONTUACAO = 7\<rparr>,
      \<lparr>NIVEL = Senior, CARGO = ''ENGENHARIA DE DADOS'', CATEGORIA = ''SQL'', PONTUACAO = 8\<rparr>]"

definition example_world :: world where
  "example_world =
     \<lparr>heap = [example_table],
      files = [''templates/template.html'' \<mapsto> ''{{ senior_comparison_chart }}''],
      writable = (\<lambda>path. True),
      entropy = (\<lambda>n. ''chart-'' @ replicate n CHR ''i''),
      drawn = 0\<rparr>"

text \<open>
  A serialiser that writes the identifier of the chart and the names of its series, a
  renderer that returns the template as it is, and a second world that differs from the
  first in the frames it holds and in the identifiers drawn so far.
\<close>

text \<open>
  A mean for the small table: the quotient of the sum by the count. On the scores of the
  table (groups 10 and 20, 7, and 8) float64 computes it without rounding.
\<close>

definition example_mean :: "real list \<Rightarrow> real" where
  "example_mean vs = sum_list vs / real (length vs)"

definition example_markup :: "figure \<Rightarrow> string \<Rightarrow> string" where
  "example_markup fig div_id = ''<div id='' @ div_id @ ''>'' @ concat (map bar_name (fig_data fig))"

definition example_render :: "string \<Rightarrow> (string \<times> string) list \<Rightarrow> py_error + string" where
  "example_render template_content bindings = Inr template_content"

definition other_world :: world where
  "other_world = example_world\<lparr>heap := [[], example_table], drawn := 7\<rparr>"

section \<open>Properties of the library operations\<close>

lemma set_unique_from: "set (unique_from seen vs) = set vs - set seen"
  by (induction vs arbitrary: seen) auto

lemma distinct_unique_from: "distinct (unique_from seen vs)"
  by (induction vs arbitrary: seen) (auto simp: set_unique_from)

lemma set_unique: "set (unique vs) = set vs"
  by (simp add: unique_def set_unique_from)

lemma distinct_unique: "distinct (unique vs)"
  by (simp add: unique_def distinct_unique_from)

lemma sorted_py_unique: "sorted_py (unique vs) = sorted_list_of_set (set vs)"
proof -
  have "sorted (sort (unique vs))" "distinct (sort (unique vs))"
       "set (sort (unique vs)) = set vs"
    by (simp_all add: distinct_unique set_unique)
  then show ?thesis
    unfolding sorted_py_def
    by (metis sorted_list_of_set.idem_if_sorted_distinct)
qed


lemma calculate_mean_scores_eq:
  "calculate_mean_scores mean data level c w =
     (groupby_mean mean c (filter (\<lambda>r. NIVEL r = level) (heap w ! data)),
      w\<lparr>heap := heap w @ [filter (\<lambda>r. NIVEL r = level) (heap w ! data)]\<rparr>)"
  by (simp add: calculate_mean_scores_def boolean_index_def)

lemma groupby_mean_empty: "groupby_mean mean category_column [] = []"
  by (simp add: groupby_mean_def unique_def sorted_py_def)

lemma categories_empty: "sorted_py (unique []) = []"
  by (simp add: unique_def sorted_py_def)

section \<open>Properties of the chart builders\<close>

lemma dict_get_fill:
  "dict_get d k dflt = (if k \<in> fst ` set d then the (map_of d k) else dflt)"
proof (cases "map_of d k")
  case None
  then have "k \<notin> fst ` set d"
    by (simp add: map_of_eq_None_iff)
  with None show ?thesis
    by (simp add: dict_get_def)
next
  case (Some v)
  then have "k \<in> fst ` set d"
    by (metis map_of_eq_None_iff option.distinct(1))
  with Some show ?thesis
    by (simp add: dict_get_def)
qed

lemma fig_data_create_bar_chart_figure:
  "fig_data (create_bar_chart_figure data1 data2 labels title yaxis_title) =
     [\<lparr>bar_x = labels, bar_y = map (\<lambda>label. dict_get data1 label 0) labels,
        bar_name = ''Juniors''\<rparr>,
      \<lparr>bar_x = labels, bar_y = map (\<lambda>label. dict_get data2 label 0) labels,
        bar_name = ''Seniors''\<rparr>]"
  by (simp add: create_bar_chart_figure_def Figure_def add_trace_def update_layout_def)

lemma fig_layout_create_bar_chart_figure:
  "fig_layout (create_bar_chart_figure data1 data2 labels title yaxis_title) =
     \<lparr>layout_title = Some title, layout_yaxis_title = Some yaxis_title,
      layout_barmode = Some ''group'', layout_xaxis_tickangle = Some (- 45)\<rparr>"
  by (simp add: create_bar_chart_figure_def Figure_def add_trace_def update_layout_def)

lemma fig_data_create_senior_comparison_chart_figure:
  "fig_data (create_senior_comparison_chart_figure data1 data2 categories title yaxis_title) =
     [\<lparr>bar_x = categories, bar_y = map (\<lambda>cat. dict_get data1 cat 0) categories,
        bar_name = ''Data Engineers Senior''\<rparr>,
      \<lparr>bar_x = categories, bar_y = map (\<lambda>cat. dict_get data2 cat 0) categories,
        bar_name = ''Analytics Engineers Senior''\<rparr>]"
  by (simp add: create_senior_comparison_chart_figure_def Figure_def add_trace_def
      update_layout_def)

lemma fig_layout_create_senior_comparison_chart_figure:
  "fig_layout (create_senior_comparison_chart_figure data1 data2 categories title yaxis_title) =
     \<lparr>layout_title = Some title, layout_yaxis_title = Some yaxis_title,
      layout_barmode = Some ''group'', layout_xaxis_tickangle = Some (- 45)\<rparr>"
  by (simp add: create_senior_comparison_chart_figure_def Figure_def add_trace_def
      update_layout_def)

lemma create_bar_chart_eq:
  "create_bar_chart markup data1 data2 labels title yaxis_title w =
     (markup (create_bar_chart_figure data1 data2 labels title yaxis_title)
        (entropy w (drawn w)), w\<lparr>drawn := drawn w + 1\<rparr>)"
  by (simp add: create_bar_chart_def to_html_def uuid4_def)

lemma create_senior_comparison_chart_eq:
  "create_senior_comparison_chart markup data1 data2 categories title yaxis_title w =
     (markup (create_senior_comparison_chart_figure data1 data2 categories title yaxis_title)
        (entropy w (drawn w)), w\<lparr>drawn := drawn w + 1\<rparr>)"
  by (simp add: create_senior_comparison_chart_def to_html_def uuid4_def)

section \<open>Running the report\<close>

lemma track_level_step:
  assumes "boolean_index keep data w = (d, w1)"
      and "calculate_mean_scores mean d level c w1 = (m, w2)"
      and "data < length (heap w)"
  shows "m = groupby_mean mean c (filter (\<lambda>r. NIVEL r = level) (filter keep (heap w ! data)))"
    and "heap w2 = heap w @ [filter keep (heap w ! data),
           filter (\<lambda>r. NIVEL r = level) (filter keep (heap w ! data))]"
    and "files w2 = files w" and "writable w2 = writable w"
    and "entropy w2 = entropy w" and "drawn w2 = drawn w"
  using assms by (auto simp: boolean_index_def calculate_mean_scores_eq)

lemma track_level_step_frame:
  assumes "boolean_index keep data w = (d, w1)"
      and "calculate_mean_scores mean d level c w1 = (m, w2)"
      and "data < length (heap w)"
  shows "data < length (heap w2)" and "heap w2 ! data = heap w ! data"
  using track_level_step(2)[OF assms] assms(3) by (simp_all add: nth_append)

lemma generate_interactive_report_run:
  assumes valid: "data < length (heap w)"
      and template: "files w template_path = Some template_content"
  obtains w' where
    "heap w' = heap w @ report_frames (heap w ! data)"
    "files w' = files w" "writable w' = writable w"
    "entropy w' = entropy w" "drawn w' = drawn w + 5"
    "generate_interactive_report mean markup render data template_path output_path w =
       report_outcome mean markup render template_content output_path (heap w ! data) w w'"
proof -
  let ?t = "heap w ! data"
  obtain d1 v1 where b1: "boolean_index (\<lambda>r. CARGO r = ''ENGENHARIA DE DADOS'') data w = (d1, v1)"
    by (metis surj_pair)
  obtain m1 w1 where c1: "calculate_mean_scores mean d1 ''Junior'' CATEGORIA v1 = (m1, w1)"
    by (metis surj_pair)
  note s1 = track_level_step[OF b1 c1 valid] and f1 = track_level_step_frame[OF b1 c1 valid]
  obtain d2 v2 where b2: "boolean_index (\<lambda>r. CARGO r = ''ENGENHARIA DE DADOS'') data w1 = (d2, v2)"
    by (metis surj_pair)
  obtain m2 w2 where c2: "calculate_mean_scores mean d2 Senior CATEGORIA v2 = (m2, w2)"
    by (metis surj_pair)
  note s2 = track_level_step[OF b2 c2 f1(1)] and f2 = track_level_step_frame[OF b2 c2 f1(1)]
  obtain d3 v3 where b3: "boolean_index (\<lambda>r. CARGO r = ''ENGENHARIA DE ANALYTICS'') data w2 = (d3, v3)"
    by (metis surj_pair)
  obtain m3 w3 where c3: "calculate_mean_scores mean d3 ''Junior'' CATEGORIA v3 = (m3, w3)"
    by (metis surj_pair)
  note s3 = track_level_step[OF b3 c3 f2(1)] and f3 = track_level_step_frame[OF b3 c3 f2(1)]
  obtain d4 v4 where b4: "boolean_index (\<lambda>r. CARGO r = ''ENGENHARIA DE ANALYTICS'') data w3 = (d4, v4)"
    by (metis surj_pair)
  obtain m4 w4 where c4: "calculate_mean_scores mean d4 Senior CATEGORIA v4 = (m4, w4)"
    by (metis surj_pair)
  note s4 = track_level_step[OF b4 c4 f3(1)] and f4 = track_level_step_frame[OF b4 c4 f3(1)]
  obtain d5 v5 where b5: "boolean_index (\<lambda>r. CARGO r = ''ENGENHARIA DE DADOS'') data w4 = (d5, v5)"
    by (metis surj_pair)
  obtain m5 w5 where c5: "calculate_mean_scores mean d5 ''Pleno'' CATEGORIA v5 = (m5, w5)"
    by (metis surj_pair)
  note s5 = track_level_step[OF b5 c5 f4(1)] and f5 = track_level_step_frame[OF b5 c5 f4(1)]
  obtain d6 v6 where b6: "boolean_index (\<lambda>r. CARGO r = ''ENGENHARIA DE ANALYTICS'') data w5 = (d6, v6)"
    by (metis surj_pair)
  obtain m6 w6 where c6: "calculate_mean_scores mean d6 ''Pleno'' CATEGORIA v6 = (m6, w6)"
    by (metis surj_pair)
  note s6 = track_level_step[OF b6 c6 f5(1)] and f6 = track_level_step_frame[OF b6 c6 f5(1)]
  have frames: "heap w1 ! data = ?t" "heap w2 ! data = ?t" "heap w3 ! data = ?t"
    "heap w4 ! data = ?t" "heap w5 ! data = ?t"
    by (simp_all only: f1(2) f2(2) f3(2) f4(2) f5(2))
  have g1: "heap w1 = heap w @ [filter (\<lambda>r. CARGO r = ''ENGENHARIA DE DADOS'') ?t,
      filter (\<lambda>r. NIVEL r = ''Junior'') (filter (\<lambda>r. CARGO r = ''ENGENHARIA DE DADOS'') ?t)]"
    by (rule s1(2))
  have g2: "heap w2 = heap w1 @ [filter (\<lambda>r. CARGO r = ''ENGENHARIA DE DADOS'') ?t,
      filter (\<lambda>r. NIVEL r = Senior) (filter (\<lambda>r. CARGO r = ''ENGENHARIA DE DADOS'') ?t)]"
    using s2(2) by (simp only: frames)
  have g3: "heap w3 = heap w2 @ [filter (\<lambda>r. CARGO r = ''ENGENHARIA DE ANALYTICS'') ?t,
      filter (\<lambda>r. NIVEL r = ''Junior'') (filter (\<lambda>r. CARGO r = ''ENGENHARIA DE ANALYTICS'') ?t)]"
    using s3(2) by (simp only: frames)
  have g4: "heap w4 = heap w3 @ [filter (\<lambda>r. CARGO r = ''ENGENHARIA DE ANALYTICS'') ?t,
      filter (\<lambda>r. NIVEL r = Senior) (filter (\<lambda>r. CARGO r = ''ENGENHARIA DE ANALYTICS'') ?t)]"
    using s4(2) by (simp only: frames)
  have g5: "heap w5 = heap w4 @ [filter (\<lambda>r. CARGO r = ''ENGENHARIA DE DADOS'') ?t,
      filter (\<lambda>r. NIVEL r = ''Pleno'') (filter (\<lambda>r. CARGO r = ''ENGENHARIA DE DADOS'') ?t)]"
    using s5(2) by (simp only: frames)
  have g6: "heap w6 = heap w5 @ [filter (\<lambda>r. CARGO r = ''ENGENHARIA DE ANALYTICS'') ?t,
      filter (\<lambda>r. NIVEL r = ''Pleno'') (filter (\<lambda>r. CARGO r = ''ENGENHARIA DE ANALYTICS'') ?t)]"
    using s6(2) by (simp only: frames)
  have hp: "heap w6 = heap w @ report_frames ?t"
    unfolding g6 g5 g4 g3 g2 g1 report_frames_def
    by (simp del: filter_filter)
  have fl: "files w6 = files w" "writable w6 = writable w"
    by (simp_all only: s1(3,4) s2(3,4) s3(3,4) s4(3,4) s5(3,4) s6(3,4))
  have en: "entropy w6 = entropy w" "drawn w6 = drawn w"
    by (simp_all only: s1(5,6) s2(5,6) s3(5,6) s4(5,6) s5(5,6) s6(5,6))
  show ?thesis
  proof (rule that[of "w6\<lparr>drawn := drawn w6 + 5\<rparr>"])
    show "heap (w6\<lparr>drawn := drawn w6 + 5\<rparr>) = heap w @ report_frames (heap w ! data)"
      using hp by simp
    show "files (w6\<lparr>drawn := drawn w6 + 5\<rparr>) = files w"
      "writable (w6\<lparr>drawn := drawn w6 + 5\<rparr>) = writable w"
      "entropy (w6\<lparr>drawn := drawn w6 + 5\<rparr>) = entropy w"
      "drawn (w6\<lparr>drawn := drawn w6 + 5\<rparr>) = drawn w + 5"
      using fl en by simp_all
    show "generate_interactive_report mean markup render data template_path output_path w =
       report_outcome mean markup render template_content output_path (heap w ! data) w
         (w6\<lparr>drawn := drawn w6 + 5\<rparr>)"
      unfolding generate_interactive_report_def read_template_def report_outcome_def
        report_figures_def
      apply (simp only: template option.case sum.case Let_def b1 c1 b2 c2 b3 c3 b4 c4 b5 c5 b6 c6
          prod.case)
      apply (simp only: s1(1) s2(1) s3(1) s4(1) s5(1) s6(1) frames)
      apply (simp add: create_bar_chart_eq create_senior_comparison_chart_eq write_file_def
          en fl eval_nat_numeral split: sum.splits)
      done
  qed
qed

section \<open>The aggregator\<close>



text \<open>
  C4. The assembler selects the rows whose track equals the track filter into a new frame,
  and \<open>calculate_mean_scores\<close> selects from that frame the rows whose level equals the level
  filter into another new frame (the last of the store when it returns), which it groups.
  That frame holds exactly the rows of the table with that level and that track, it is the
  frame that one selection by the conjunction of the two conditions gives, and the mapping
  returned is the one computed from that single selection.

  In a run of \<open>generate_interactive_report\<close> whose template exists, the frames the run
  adds to the store are, for each of the six aggregations in the order of the program, the
  selection of the track from the table and the selection of the level from that selection;
  and the two series of each of the five figures rendered are read, with default 0, from
  the mappings of the rows selected by the conjunction of level and track from the whole
  table.
\<close>

theorem successive_filters_are_conjunction:
  assumes "data < length (heap w)"
      and "files w template_path = Some template_content"
  shows "(let (selected, w1) = boolean_index (\<lambda>r. CARGO r = track) data w;
              (mean_scores, w2) = calculate_mean_scores mean selected level category_column w1;
              (both, w3) = boolean_index (\<lambda>r. NIVEL r = level \<and> CARGO r = track) data w
          in heap w1 ! selected = filter (\<lambda>r. CARGO r = track) (heap w ! data) \<and>
             last (heap w2) = filter (\<lambda>r. NIVEL r = level) (heap w1 ! selected) \<and>
             last (heap w2) = heap w3 ! both \<and>
             set (last (heap w2)) =
               {r \<in> set (heap w ! data). NIVEL r = level \<and> CARGO r = track} \<and>
             mean_scores = groupby_mean mean category_column (last (heap w2)) \<and>
             mean_scores = groupby_mean mean category_column (heap w3 ! both)) \<and>
     heap (snd (generate_interactive_report mean markup render data template_path
                  output_path w)) =
       heap w @
         concat (map (\<lambda>(track, level).
             [filter (\<lambda>r. CARGO r = track) (heap w ! data),
              filter (\<lambda>r. NIVEL r = level)
                (filter (\<lambda>r. CARGO r = track) (heap w ! data))])
           [(''ENGENHARIA DE DADOS'', ''Junior''), (''ENGENHARIA DE DADOS'', Senior),
            (''ENGENHARIA DE ANALYTICS'', ''Junior''), (''ENGENHARIA DE ANALYTICS'', Senior),
            (''ENGENHARIA DE DADOS'', ''Pleno''), (''ENGENHARIA DE ANALYTICS'', ''Pleno'')]) \<and>
     (\<exists>f1 f2 f3 f4 f5 w'.
        (let by_both = (\<lambda>track level. groupby_mean mean CATEGORIA
               (filter (\<lambda>r. NIVEL r = level \<and> CARGO r = track) (heap w ! data)));
             series = (\<lambda>mapping. map (\<lambda>c. dict_get mapping c 0)
               (sorted_py (unique (map CATEGORIA (heap w ! data)))))
         in map bar_y (fig_data f1) =
              [series (by_both ''ENGENHARIA DE DADOS'' ''Junior''), series (by_both ''ENGENHARIA DE DADOS'' Senior)] \<and>
            map bar_y (fig_data f2) =
              [series (by_both ''ENGENHARIA DE DADOS'' ''Pleno''), series (by_both ''ENGENHARIA DE DADOS'' Senior)] \<and>
            map bar_y (fig_data f3) =
              [series (by_both ''ENGENHARIA DE ANALYTICS'' ''Junior''), series (by_both ''ENGENHARIA DE ANALYTICS'' Senior)] \<and>
            map bar_y (fig_data f4) =
              [series (by_both ''ENGENHARIA DE ANALYTICS'' ''Pleno''), series (by_both ''ENGENHARIA DE ANALYTICS'' Senior)] \<and>
            map bar_y (fig_data f5) =
              [series (by_both ''ENGENHARIA DE DADOS'' Senior), series (by_both ''ENGENHARIA DE ANALYTICS'' Senior)]) \<and>
        generate_interactive_report mean markup render data template_path output_path w =
          (case render template_content
             [(''junior_senior_chart_data'', markup f1 (entropy w (drawn w))),
              (''pleno_senior_chart_data'', markup f2 (entropy w (drawn w + 1))),
              (''junior_senior_chart_analytics'', markup f3 (entropy w (drawn w + 2))),
              (''pleno_senior_chart_analytics'', markup f4 (entropy w (drawn w + 3))),
              (''senior_comparison_chart'', markup f5 (entropy w (drawn w + 4)))] of
             Inl e \<Rightarrow> (Inl e, w')
           | Inr html_report \<Rightarrow>
               if writable w output_path
               then (Inr output_path, w'\<lparr>files := (files w)(output_path \<mapsto> html_report)\<rparr>)
               else (Inl (OSError output_path), w')))"
proof -
  have both: "filter (\<lambda>r. NIVEL r = lv) (filter (\<lambda>r. CARGO r = tr) rows) =
      filter (\<lambda>r. NIVEL r = lv \<and> CARGO r = tr) rows" for rows :: dataframe and lv tr
    by (induction rows) auto
  have parts: "let (selected, w1) = boolean_index (\<lambda>r. CARGO r = track) data w;
              (mean_scores, w2) = calculate_mean_scores mean selected level category_column w1;
              (both, w3) = boolean_index (\<lambda>r. NIVEL r = level \<and> CARGO r = track) data w
          in heap w1 ! selected = filter (\<lambda>r. CARGO r = track) (heap w ! data) \<and>
             last (heap w2) = filter (\<lambda>r. NIVEL r = level) (heap w1 ! selected) \<and>
             last (heap w2) = heap w3 ! both \<and>
             set (last (heap w2)) =
               {r \<in> set (heap w ! data). NIVEL r = level \<and> CARGO r = track} \<and>
             mean_scores = groupby_mean mean category_column (last (heap w2)) \<and>
             mean_scores = groupby_mean mean category_column (heap w3 ! both)"
    by (auto simp: boolean_index_def calculate_mean_scores_eq both simp del: filter_filter)
  obtain w' where hp: "heap w' = heap w @ report_frames (heap w ! data)"
    and run: "generate_interactive_report mean markup render data template_path output_path w =
       report_outcome mean markup render template_content output_path (heap w ! data) w w'"
    by (rule generate_interactive_report_run[OF assms])
  have "heap (snd (generate_interactive_report mean markup render data template_path
                     output_path w)) = heap w'"
    unfolding run report_outcome_def
    by (simp split: sum.splits)
  then have frames: "heap (snd (generate_interactive_report mean markup render data
      template_path output_path w)) =
       heap w @
         concat (map (\<lambda>(track, level).
             [filter (\<lambda>r. CARGO r = track) (heap w ! data),
              filter (\<lambda>r. NIVEL r = level)
                (filter (\<lambda>r. CARGO r = track) (heap w ! data))])
           [(''ENGENHARIA DE DADOS'', ''Junior''), (''ENGENHARIA DE DADOS'', Senior),
            (''ENGENHARIA DE ANALYTICS'', ''Junior''), (''ENGENHARIA DE ANALYTICS'', Senior),
            (''ENGENHARIA DE DADOS'', ''Pleno''), (''ENGENHARIA DE ANALYTICS'', ''Pleno'')])"
    by (simp only: hp report_frames_def)
  show ?thesis
    apply (intro exI conjI)
       apply (rule parts)
      apply (rule frames)
     prefer 2
     apply (subst run)
     apply (unfold report_outcome_def)
     apply (rule refl)
    apply (simp add: report_figures_def Let_def fig_data_create_bar_chart_figure
        fig_data_create_senior_comparison_chart_figure both del: filter_filter)
    done
qed

theorem successive_filters_are_conjunction_witness:
  "0 < length (heap example_world) \<and>
   files example_world ''templates/template.html'' = Some ''{{ senior_comparison_chart }}'' \<and>
   (let (selected, w1) = boolean_index (\<lambda>r. CARGO r = ''ENGENHARIA DE DADOS'') 0 example_world;
        (mean_scores, w2) = calculate_mean_scores example_mean selected Senior CATEGORIA w1;
        (both, w3) = boolean_index
           (\<lambda>r. NIVEL r = Senior \<and> CARGO r = ''ENGENHARIA DE DADOS'') 0 example_world
    in last (heap w2) = heap w3 ! both \<and>
       heap w3 ! both = [\<lparr>NIVEL = Senior, CARGO = ''ENGENHARIA DE DADOS'',
                          CATEGORIA = ''SQL'', PONTUACAO = 8\<rparr>]) \<and>
   take 5 (heap (snd (generate_interactive_report example_mean example_markup example_render 0
                  ''templates/template.html'' ''report.html'' example_world))) =
     [example_table,
      [\<lparr>NIVEL = ''Junior'', CARGO = ''ENGENHARIA DE DADOS'', CATEGORIA = ''SQL'', PONTUACAO = 10\<rparr>,
       \<lparr>NIVEL = ''Junior'', CARGO = ''ENGENHARIA DE DADOS'', CATEGORIA = ''SQL'', PONTUACAO = 20\<rparr>,
       \<lparr>NIVEL = Senior, CARGO = ''ENGENHARIA DE DADOS'', CATEGORIA = ''SQL'', PONTUACAO = 8\<rparr>],
      [\<lparr>NIVEL = ''Junior'', CARGO = ''ENGENHARIA DE DADOS'', CATEGORIA = ''SQL'', PONTUACAO = 10\<rparr>,
       \<lparr>NIVEL = ''Junior'', CARGO = ''ENGENHARIA DE DADOS'', CATEGORIA = ''SQL'', PONTUACAO = 20\<rparr>],
      [\<lparr>NIVEL = ''Junior'', CARGO = ''ENGENHARIA DE DADOS'', CATEGORIA = ''SQL'', PONTUACAO = 10\<rparr>,
       \<lparr>NIVEL = ''Junior'', CARGO = ''ENGENHARIA DE DADOS'', CATEGORIA = ''SQL'', PONTUACAO = 20\<rparr>,
       \<lparr>NIVEL = Senior, CARGO = ''ENGENHARIA DE DADOS'', CATEGORIA = ''SQL'', PONTUACAO = 8\<rparr>],
      [\<lparr>NIVEL = Senior, CARGO = ''ENGENHARIA DE DADOS'', CATEGORIA = ''SQL'', PONTUACAO = 8\<rparr>]]"
proof -
  have hyps: "0 < length (heap example_world)"
    "files example_world ''templates/template.html'' = Some ''{{ senior_comparison_chart }}''"
    by (simp_all add: example_world_def)
  note run = successive_filters_are_conjunction[OF hyps, where mean = example_mean
      and markup = example_markup and render = example_render
      and output_path = "''report.html''" and track = "''ENGENHARIA DE DADOS''"
      and level = Senior and category_column = CATEGORIA]
  have parts: "let (selected, w1) =
          boolean_index (\<lambda>r. CARGO r = ''ENGENHARIA DE DADOS'') 0 example_world;
        (mean_scores, w2) = calculate_mean_scores example_mean selected Senior CATEGORIA w1;
        (both, w3) = boolean_index
           (\<lambda>r. NIVEL r = Senior \<and> CARGO r = ''ENGENHARIA DE DADOS'') 0 example_world
    in last (heap w2) = heap w3 ! both \<and>
       heap w3 ! both = [\<lparr>NIVEL = Senior, CARGO = ''ENGENHARIA DE DADOS'',
                          CATEGORIA = ''SQL'', PONTUACAO = 8\<rparr>]"
    using run[THEN conjunct1]
    by (simp add: example_world_def example_table_def boolean_index_def
        calculate_mean_scores_eq Senior_def)
  have frames: "take 5 (heap (snd (generate_interactive_report example_mean example_markup
      example_render 0 ''templates/template.html'' ''report.html'' example_world))) =
     [example_table,
      [\<lparr>NIVEL = ''Junior'', CARGO = ''ENGENHARIA DE DADOS'', CATEGORIA = ''SQL'', PONTUACAO = 10\<rparr>,
       \<lparr>NIVEL = ''Junior'', CARGO = ''ENGENHARIA DE DADOS'', CATEGORIA = ''SQL'', PONTUACAO = 20\<rparr>,
       \<lparr>NIVEL = Senior, CARGO = ''ENGENHARIA DE DADOS'', CATEGORIA = ''SQL'', PONTUACAO = 8\<rparr>],
      [\<lparr>NIVEL = ''Junior'', CARGO = ''ENGENHARIA DE DADOS'', CATEGORIA = ''SQL'', PONTUACAO = 10\<rparr>,
       \<lparr>NIVEL = ''Junior'', CARGO = ''ENGENHARIA DE DADOS'', CATEGORIA = ''SQL'', PONTUACAO = 20\<rparr>],
      [\<lparr>NIVEL = ''Junior'', CARGO = ''ENGENHARIA DE DADOS'', CATEGORIA = ''SQL'', PONTUACAO = 10\<rparr>,
       \<lparr>NIVEL = ''Junior'', CARGO = ''ENGENHARIA DE DADOS'', CATEGORIA = ''SQL'', PONTUACAO = 20\<rparr>,
       \<lparr>NIVEL = Senior, CARGO = ''ENGENHARIA DE DADOS'', CATEGORIA = ''SQL'', PONTUACAO = 8\<rparr>],
      [\<lparr>NIVEL = Senior, CARGO = ''ENGENHARIA DE DADOS'', CATEGORIA = ''SQL'', PONTUACAO = 8\<rparr>]]"
    unfolding run[THEN conjunct2, THEN conjunct1]
    by (simp add: example_world_def example_table_def Senior_def del: filter_filter)
  show ?thesis
    using hyps parts frames by (intro conjI)
qed

section \<open>The chart builders\<close>

text \<open>
  C2. For every pair of mappings and every list of categories, the figure that
  \<open>create_bar_chart\<close> serialises and the figure that \<open>create_senior_comparison_chart\<close>
  serialises each have exactly two series; each series has the supplied list as its x values
  and as many y values as there are categories; and the y value at an index is the value the
  mapping stores under the category at that index when the category is a key of the mapping,
  and 0 when it is not.
\<close>

theorem chart_series_default_fill:
  "create_bar_chart markup data1 data2 labels title yaxis_title w =
     to_html markup (create_bar_chart_figure data1 data2 labels title yaxis_title) w \<and>
   create_senior_comparison_chart markup data1 data2 labels title yaxis_title w =
     to_html markup
       (create_senior_comparison_chart_figure data1 data2 labels title yaxis_title) w \<and>
   (\<forall>fig \<in> {create_bar_chart_figure data1 data2 labels title yaxis_title,
              create_senior_comparison_chart_figure data1 data2 labels title yaxis_title}.
      length (fig_data fig) = 2 \<and>
      (\<forall>k < 2.
         bar_x (fig_data fig ! k) = labels \<and>
         length (bar_y (fig_data fig ! k)) = length labels \<and>
         (\<forall>i < length labels.
            bar_y (fig_data fig ! k) ! i =
              (if labels ! i \<in> fst ` set ([data1, data2] ! k)
               then the (map_of ([data1, data2] ! k) (labels ! i)) else 0))))"
proof -
  have two: "k < 2 \<longleftrightarrow> k = 0 \<or> k = 1" for k :: nat
    by auto
  show ?thesis
    by (simp add: create_bar_chart_def create_senior_comparison_chart_def
        fig_data_create_bar_chart_figure fig_data_create_senior_comparison_chart_figure
        two dict_get_fill)
qed

theorem chart_series_default_fill_witness:
  "map bar_y (fig_data (create_bar_chart_figure [(''SQL'', 15)] [(''Python'', 7), (''SQL'', 8)]
       [''Python'', ''SQL''] ''t'' ''y'')) = [[0, 15], [7, 8]] \<and>
   map bar_y (fig_data (create_senior_comparison_chart_figure [(''SQL'', 15)]
       [(''Python'', 7), (''SQL'', 8)] [''Python'', ''SQL''] ''t'' ''y'')) = [[0, 15], [7, 8]]"
proof -
  have two: "k < 2 \<longleftrightarrow> k = 0 \<or> k = 1" for k :: nat
    by auto
  show ?thesis
    using chart_series_default_fill[of example_markup "[(''SQL'', 15)]"
          "[(''Python'', 7), (''SQL'', 8)]" "[''Python'', ''SQL'']" "''t''" "''y''"
          example_world]
    by (simp add: fig_data_create_bar_chart_figure
        fig_data_create_senior_comparison_chart_figure dict_get_def)
qed

text \<open>
  C10. On the same arguments, the figure of \<open>create_senior_comparison_chart\<close> is the figure
  of \<open>create_bar_chart\<close> with the names of the two series replaced by
  \<^verbatim>\<open>Data Engineers Senior\<close> and \<^verbatim>\<open>Analytics Engineers Senior\<close> (they are \<^verbatim>\<open>Juniors\<close> and
  \<^verbatim>\<open>Seniors\<close> in \<open>create_bar_chart\<close>): the x values and the y values with their default of
  0 are the same, the layouts are equal, the bar mode is \<^verbatim>\<open>group\<close> and the tick angle is
  -45. Both functions return the serialisation of their figure by \<open>to_html\<close>.
\<close>

theorem senior_comparison_chart_same_but_names:
  "create_senior_comparison_chart_figure data1 data2 categories title yaxis_title =
     (create_bar_chart_figure data1 data2 categories title yaxis_title)
       \<lparr>fig_data := map2 (\<lambda>name trace. trace\<lparr>bar_name := name\<rparr>)
          [''Data Engineers Senior'', ''Analytics Engineers Senior'']
          (fig_data (create_bar_chart_figure data1 data2 categories title yaxis_title))\<rparr> \<and>
   map bar_name (fig_data (create_senior_comparison_chart_figure data1 data2 categories title
     yaxis_title)) = [''Data Engineers Senior'', ''Analytics Engineers Senior''] \<and>
   map bar_name (fig_data (create_bar_chart_figure data1 data2 categories title yaxis_title)) =
     [''Juniors'', ''Seniors''] \<and>
   map bar_x (fig_data (create_senior_comparison_chart_figure data1 data2 categories title
     yaxis_title)) =
     map bar_x (fig_data (create_bar_chart_figure data1 data2 categories title yaxis_title)) \<and>
   map bar_y (fig_data (create_senior_comparison_chart_figure data1 data2 categories title
     yaxis_title)) =
     map bar_y (fig_data (create_bar_chart_figure data1 data2 categories title yaxis_title)) \<and>
   map bar_y (fig_data (create_bar_chart_figure data1 data2 categories title yaxis_title)) =
     [map (\<lambda>c. dict_get data1 c 0) categories, map (\<lambda>c. dict_get data2 c 0) categories] \<and>
   fig_layout (create_senior_comparison_chart_figure data1 data2 categories title yaxis_title) =
     fig_layout (create_bar_chart_figure data1 data2 categories title yaxis_title) \<and>
   layout_barmode (fig_layout (create_bar_chart_figure data1 data2 categories title
     yaxis_title)) = Some ''group'' \<and>
   layout_xaxis_tickangle (fig_layout (create_bar_chart_figure data1 data2 categories title
     yaxis_title)) = Some (- 45) \<and>
   create_senior_comparison_chart markup data1 data2 categories title yaxis_title w =
     to_html markup
       (create_senior_comparison_chart_figure data1 data2 categories title yaxis_title) w \<and>
   create_bar_chart markup data1 data2 categories title yaxis_title w =
     to_html markup (create_bar_chart_figure data1 data2 categories title yaxis_title) w"
  by (simp add: create_senior_comparison_chart_figure_def create_bar_chart_figure_def
      create_senior_comparison_chart_def create_bar_chart_def
      Figure_def add_trace_def update_layout_def)

section \<open>The report assembler\<close>

text \<open>
  C3. For every table, the category axis that \<open>generate_interactive_report\<close> computes is
  sorted in the order of strings, has no duplicates and contains exactly the categories of the
  whole table; it is the same for every permutation \<open>rows\<close> of the rows of the table; and
  the report is rendered from five figures in which every series has this list as its x
  values. The reference \<open>data\<close> names a frame of the store and the template file exists.
\<close>

theorem category_axis_sorted_distinct:
  assumes "data < length (heap w)"
      and "files w template_path = Some template_content"
      and "mset rows = mset (heap w ! data)"
  shows "sorted_py (unique (map CATEGORIA rows)) =
           sorted_py (unique (map CATEGORIA (heap w ! data))) \<and>
     sorted (sorted_py (unique (map CATEGORIA (heap w ! data)))) \<and>
     distinct (sorted_py (unique (map CATEGORIA (heap w ! data)))) \<and>
     set (sorted_py (unique (map CATEGORIA (heap w ! data)))) = CATEGORIA ` set (heap w ! data) \<and>
     (\<exists>f1 f2 f3 f4 f5 w'.
        (\<forall>fig \<in> {f1, f2, f3, f4, f5}. length (fig_data fig) = 2 \<and>
           (\<forall>trace \<in> set (fig_data fig).
              bar_x trace = sorted_py (unique (map CATEGORIA (heap w ! data))))) \<and>
        generate_interactive_report mean markup render data template_path output_path w =
          (case render template_content
             [(''junior_senior_chart_data'', markup f1 (entropy w (drawn w))),
              (''pleno_senior_chart_data'', markup f2 (entropy w (drawn w + 1))),
              (''junior_senior_chart_analytics'', markup f3 (entropy w (drawn w + 2))),
              (''pleno_senior_chart_analytics'', markup f4 (entropy w (drawn w + 3))),
              (''senior_comparison_chart'', markup f5 (entropy w (drawn w + 4)))] of
             Inl e \<Rightarrow> (Inl e, w')
           | Inr html_report \<Rightarrow>
               if writable w output_path
               then (Inr output_path, w'\<lparr>files := (files w)(output_path \<mapsto> html_report)\<rparr>)
               else (Inl (OSError output_path), w')))"
proof -
  let ?t = "heap w ! data"
  let ?cats = "sorted_py (unique (map CATEGORIA ?t))"
  have "set rows = set ?t"
    using assms(3) by (rule mset_eq_setD)
  then have same: "sorted_py (unique (map CATEGORIA rows)) = ?cats"
    by (simp add: sorted_py_unique)
  have props: "sorted ?cats" "distinct ?cats" "set ?cats = CATEGORIA ` set ?t"
    by (simp_all add: sorted_py_unique)
  obtain w' where run:
    "generate_interactive_report mean markup render data template_path output_path w =
       report_outcome mean markup render template_content output_path (heap w ! data) w w'"
    by (rule generate_interactive_report_run[OF assms(1,2)])
  show ?thesis
    apply (intro exI conjI)
         apply (rule same)
        apply (rule props)+
     prefer 2
     apply (subst run)
     apply (unfold report_outcome_def)
     apply (rule refl)
    apply (simp add: report_figures_def Let_def fig_data_create_bar_chart_figure
        fig_data_create_senior_comparison_chart_figure)
    done
qed

theorem category_axis_sorted_distinct_witness:
  "0 < length (heap example_world) \<and>
   files example_world ''templates/template.html'' = Some ''{{ senior_comparison_chart }}'' \<and>
   mset (rev example_table) = mset (heap example_world ! 0) \<and>
   sorted_py (unique (map CATEGORIA (rev example_table))) =
     sorted_py (unique (map CATEGORIA (heap example_world ! 0))) \<and>
   sorted_py (unique (map CATEGORIA (heap example_world ! 0))) = [''Python'', ''SQL'']"
proof -
  have hyps: "0 < length (heap example_world)"
    "files example_world ''templates/template.html'' = Some ''{{ senior_comparison_chart }}''"
    "mset (rev example_table) = mset (heap example_world ! 0)"
    by (simp_all add: example_world_def)
  have cats: "sorted_py (unique (map CATEGORIA (heap example_world ! 0))) = [''Python'', ''SQL'']"
    by (simp add: example_world_def example_table_def unique_def sorted_py_def)
  show ?thesis
    using category_axis_sorted_distinct[OF hyps, where mean = example_mean
        and markup = example_markup and render = example_render
        and output_path = "''report.html''", THEN conjunct1] hyps cats
    by (intro conjI)
qed

text \<open>
  C6. When there is no file at the template path, \<open>generate_interactive_report\<close> raises
  \<^verbatim>\<open>FileNotFoundError\<close> and leaves the world as it was: no frame has been created by a
  selection, no identifier has been drawn for a chart, neither the serialiser nor the
  renderer plays a part in the result, and the file system is unchanged, the output path
  included.
\<close>

theorem missing_template_aborts:
  assumes "files w template_path = None"
  shows "generate_interactive_report mean markup render data template_path output_path w =
           (Inl (FileNotFoundError template_path), w) \<and>
         files (snd (generate_interactive_report mean markup render data template_path
                       output_path w)) output_path = files w output_path \<and>
         heap (snd (generate_interactive_report mean markup render data template_path
                      output_path w)) = heap w \<and>
         drawn (snd (generate_interactive_report mean markup render data template_path
                       output_path w)) = drawn w"
  using assms by (simp add: generate_interactive_report_def read_template_def)

theorem missing_template_aborts_witness:
  "files (example_world\<lparr>files := Map.empty\<rparr>) ''templates/template.html'' = None \<and>
   generate_interactive_report example_mean example_markup example_render 0
       ''templates/template.html'' ''report.html'' (example_world\<lparr>files := Map.empty\<rparr>) =
     (Inl (FileNotFoundError ''templates/template.html''), example_world\<lparr>files := Map.empty\<rparr>)"
  using missing_template_aborts[where w = "example_world\<lparr>files := Map.empty\<rparr>"
          and template_path = "''templates/template.html''" and mean = example_mean
          and markup = example_markup and render = example_render and data = 0
          and output_path = "''report.html''"]
  by simp

text \<open>
  C8. A run of \<open>generate_interactive_report\<close> leaves the frame it was given, and every
  other frame that existed before the run, as it was: the store after the run is the store
  before it followed by new frames. The same holds for a single selection and for
  \<open>calculate_mean_scores\<close>.
\<close>

theorem input_table_not_mutated:
  assumes "data < length (heap w)"
  shows "heap (snd (generate_interactive_report mean markup render data template_path
                      output_path w)) ! data = heap w ! data \<and>
         take (length (heap w))
           (heap (snd (generate_interactive_report mean markup render data template_path
                         output_path w))) = heap w \<and>
         heap (snd (boolean_index keep data w)) ! data = heap w ! data \<and>
         take (length (heap w)) (heap (snd (boolean_index keep data w))) = heap w \<and>
         heap (snd (calculate_mean_scores mean data level category_column w)) ! data =
           heap w ! data \<and>
         take (length (heap w))
           (heap (snd (calculate_mean_scores mean data level category_column w))) = heap w"
proof -
  let ?run = "generate_interactive_report mean markup render data template_path output_path w"
  have "\<exists>fs. heap (snd ?run) = heap w @ fs"
  proof (cases "files w template_path")
    case None
    then show ?thesis
      by (simp add: generate_interactive_report_def read_template_def)
  next
    case (Some template_content)
    obtain w' where w': "heap w' = heap w @ report_frames (heap w ! data)"
      and run: "?run =
        report_outcome mean markup render template_content output_path (heap w ! data) w w'"
      by (rule generate_interactive_report_run[OF assms Some])
    have "heap (snd ?run) = heap w'"
      unfolding run report_outcome_def
      by (simp split: sum.splits)
    with w' show ?thesis
      by simp
  qed
  then obtain fs where "heap (snd ?run) = heap w @ fs" ..
  then have "heap (snd ?run) ! data = heap w ! data"
    "take (length (heap w)) (heap (snd ?run)) = heap w"
    using assms by (simp_all add: nth_append)
  moreover have "heap (snd (boolean_index keep data w)) ! data = heap w ! data"
    "take (length (heap w)) (heap (snd (boolean_index keep data w))) = heap w"
    "heap (snd (calculate_mean_scores mean data level category_column w)) ! data = heap w ! data"
    "take (length (heap w))
       (heap (snd (calculate_mean_scores mean data level category_column w))) = heap w"
    using assms by (simp_all add: boolean_index_def calculate_mean_scores_eq nth_append)
  ultimately show ?thesis
    by (intro conjI)
qed

theorem input_table_not_mutated_witness:
  "0 < length (heap example_world) \<and>
   heap (snd (generate_interactive_report example_mean example_markup example_render 0
                ''templates/template.html'' ''report.html'' example_world)) ! 0 =
     example_table"
  using input_table_not_mutated[where data = 0 and w = example_world and mean = example_mean
          and markup = example_markup and render = example_render
          and template_path = "''templates/template.html''"
          and output_path = "''report.html''", THEN conjunct1]
  by (simp add: example_world_def)

text \<open>
  C7. Let the table have no rows, let the template file exist, let the renderer accept the
  template with the five charts, and let the output path be writable. Then the mapping of
  every track and level is empty, the category axis is empty, both series of every chart
  are empty (so they have no value other than zero), and the run returns the output path
  after writing the rendered report.
\<close>

theorem empty_table_report:
  assumes "data < length (heap w)"
      and "heap w ! data = []"
      and "files w template_path = Some template_content"
      and "render template_content
             [(''junior_senior_chart_data'', markup (create_bar_chart_figure [] [] []
                 (Comparacao_de @ Pontuacao_Media @ '': Juniors vs Seniors (Data Engineers)'')
                 Pontuacao_Media) (entropy w (drawn w))),
              (''pleno_senior_chart_data'', markup (create_bar_chart_figure [] [] []
                 (Comparacao_de @ Pontuacao_Media @ '': Plenos vs Seniors (Data Engineers)'')
                 Pontuacao_Media) (entropy w (drawn w + 1))),
              (''junior_senior_chart_analytics'', markup (create_bar_chart_figure [] [] []
                 (Comparacao_de @ Pontuacao_Media @ '': Juniors vs Seniors (Analytics Engineers)'')
                 Pontuacao_Media) (entropy w (drawn w + 2))),
              (''pleno_senior_chart_analytics'', markup (create_bar_chart_figure [] [] []
                 (Comparacao_de @ Pontuacao_Media @ '': Plenos vs Seniors (Analytics Engineers)'')
                 Pontuacao_Media) (entropy w (drawn w + 3))),
              (''senior_comparison_chart'', markup (create_senior_comparison_chart_figure [] [] []
                 (Comparacao_de @ Pontuacao_Media @ '': Seniors (Data vs Analytics Engineers)'')
                 Pontuacao_Media) (entropy w (drawn w + 4)))] = Inr html_report"
      and "writable w output_path"
  shows "(\<forall>track level.
            fst (calculate_mean_scores mean (fst (boolean_index (\<lambda>r. CARGO r = track) data w)) level
                   CATEGORIA (snd (boolean_index (\<lambda>r. CARGO r = track) data w))) = []) \<and>
         sorted_py (unique (map CATEGORIA (heap w ! data))) = [] \<and>
         (\<forall>title yaxis_title.
            map bar_y (fig_data (create_bar_chart_figure [] [] [] title yaxis_title)) =
              [[], []] \<and>
            map bar_y (fig_data (create_senior_comparison_chart_figure [] [] [] title
              yaxis_title)) = [[], []]) \<and>
         fst (generate_interactive_report mean markup render data template_path output_path w) =
           Inr output_path \<and>
         files (snd (generate_interactive_report mean markup render data template_path
                       output_path w)) = (files w)(output_path \<mapsto> html_report)"
proof -
  have scores: "\<forall>track level.
            fst (calculate_mean_scores mean (fst (boolean_index (\<lambda>r. CARGO r = track) data w)) level
                   CATEGORIA (snd (boolean_index (\<lambda>r. CARGO r = track) data w))) = []"
    using assms(2) by (simp add: boolean_index_def calculate_mean_scores_eq groupby_mean_empty)
  have cats: "sorted_py (unique (map CATEGORIA (heap w ! data))) = []"
    using assms(2) by (simp add: categories_empty)
  have series: "\<forall>title yaxis_title.
            map bar_y (fig_data (create_bar_chart_figure [] [] [] title yaxis_title)) =
              [[], []] \<and>
            map bar_y (fig_data (create_senior_comparison_chart_figure [] [] [] title
              yaxis_title)) = [[], []]"
    by (simp add: fig_data_create_bar_chart_figure
        fig_data_create_senior_comparison_chart_figure)
  obtain w' where fl: "files w' = files w"
    and run: "generate_interactive_report mean markup render data template_path output_path w =
        report_outcome mean markup render template_content output_path (heap w ! data) w w'"
    by (rule generate_interactive_report_run[OF assms(1,3)])
  have figs: "report_figures mean [] =
      [create_bar_chart_figure [] [] []
                 (Comparacao_de @ Pontuacao_Media @ '': Juniors vs Seniors (Data Engineers)'')
                 Pontuacao_Media,
       create_bar_chart_figure [] [] []
                 (Comparacao_de @ Pontuacao_Media @ '': Plenos vs Seniors (Data Engineers)'')
                 Pontuacao_Media,
       create_bar_chart_figure [] [] []
                 (Comparacao_de @ Pontuacao_Media @ '': Juniors vs Seniors (Analytics Engineers)'')
                 Pontuacao_Media,
       create_bar_chart_figure [] [] []
                 (Comparacao_de @ Pontuacao_Media @ '': Plenos vs Seniors (Analytics Engineers)'')
                 Pontuacao_Media,
       create_senior_comparison_chart_figure [] [] []
                 (Comparacao_de @ Pontuacao_Media @ '': Seniors (Data vs Analytics Engineers)'')
                 Pontuacao_Media]"
    by (simp add: report_figures_def Let_def groupby_mean_empty categories_empty)
  have out: "report_outcome mean markup render template_content output_path [] w w' =
      (Inr output_path, w'\<lparr>files := (files w)(output_path \<mapsto> html_report)\<rparr>)"
    unfolding report_outcome_def figs
    using assms(4,5) by simp
  have res: "fst (generate_interactive_report mean markup render data template_path output_path w) =
           Inr output_path"
    "files (snd (generate_interactive_report mean markup render data template_path
                       output_path w)) = (files w)(output_path \<mapsto> html_report)"
    by (simp_all add: run assms(2) out)
  show ?thesis
    using scores cats series res by (intro conjI)
qed

theorem empty_table_report_witness:
  "0 < length (heap (example_world\<lparr>heap := [[]]\<rparr>)) \<and>
   heap (example_world\<lparr>heap := [[]]\<rparr>) ! 0 = [] \<and>
   files (example_world\<lparr>heap := [[]]\<rparr>) ''templates/template.html'' =
     Some ''{{ senior_comparison_chart }}'' \<and>
   writable (example_world\<lparr>heap := [[]]\<rparr>) ''report.html'' \<and>
   fst (generate_interactive_report example_mean example_markup example_render 0
          ''templates/template.html'' ''report.html'' (example_world\<lparr>heap := [[]]\<rparr>)) =
     Inr ''report.html'' \<and>
   files (snd (generate_interactive_report example_mean example_markup example_render 0
          ''templates/template.html'' ''report.html'' (example_world\<lparr>heap := [[]]\<rparr>)))
       ''report.html'' = Some ''{{ senior_comparison_chart }}''"
proof -
  let ?w = "example_world\<lparr>heap := [[]]\<rparr>"
  have h1: "0 < length (heap ?w)" and h2: "heap ?w ! 0 = []"
    and h3: "files ?w ''templates/template.html'' = Some ''{{ senior_comparison_chart }}''"
    and h5: "writable ?w ''report.html''"
    by (simp_all add: example_world_def)
  show ?thesis
    using empty_table_report[where data = 0 and w = ?w
        and template_path = "''templates/template.html''"
        and template_content = "''{{ senior_comparison_chart }}''"
        and render = example_render and markup = example_markup and mean = example_mean
        and html_report = "''{{ senior_comparison_chart }}''"
        and output_path = "''report.html''"] h1 h2 h3 h5
    by (simp add: example_render_def)
qed

text \<open>
  C9. The two series of every figure of \<open>create_bar_chart\<close> are named \<^verbatim>\<open>Juniors\<close> and
  \<^verbatim>\<open>Seniors\<close>, whatever the arguments. In the report, the second and the fourth chart
  are titled \<^verbatim>\<open>Plenos vs Seniors\<close>, their first series holds the scores of level
  \<^verbatim>\<open>Pleno\<close>, and their series are named \<^verbatim>\<open>Juniors\<close> and \<^verbatim>\<open>Seniors\<close> too.
\<close>

theorem pleno_charts_named_juniors_seniors:
  assumes "data < length (heap w)"
      and "files w template_path = Some template_content"
  shows "map bar_name (fig_data (create_bar_chart_figure data1 data2 labels title yaxis_title)) =
           [''Juniors'', ''Seniors''] \<and>
     (\<exists>f1 f2 f3 f4 f5 w'.
        layout_title (fig_layout f2) =
          Some (Comparacao_de @ Pontuacao_Media @ '': Plenos vs Seniors (Data Engineers)'') \<and>
        bar_y (fig_data f2 ! 0) =
          map (\<lambda>c. dict_get (groupby_mean mean CATEGORIA (filter (\<lambda>r. NIVEL r = ''Pleno'')
                 (filter (\<lambda>r. CARGO r = ''ENGENHARIA DE DADOS'') (heap w ! data)))) c 0)
            (sorted_py (unique (map CATEGORIA (heap w ! data)))) \<and>
        map bar_name (fig_data f2) = [''Juniors'', ''Seniors''] \<and>
        layout_title (fig_layout f4) =
          Some (Comparacao_de @ Pontuacao_Media @ '': Plenos vs Seniors (Analytics Engineers)'') \<and>
        bar_y (fig_data f4 ! 0) =
          map (\<lambda>c. dict_get (groupby_mean mean CATEGORIA (filter (\<lambda>r. NIVEL r = ''Pleno'')
                 (filter (\<lambda>r. CARGO r = ''ENGENHARIA DE ANALYTICS'') (heap w ! data)))) c 0)
            (sorted_py (unique (map CATEGORIA (heap w ! data)))) \<and>
        map bar_name (fig_data f4) = [''Juniors'', ''Seniors''] \<and>
        generate_interactive_report mean markup render data template_path output_path w =
          (case render template_content
             [(''junior_senior_chart_data'', markup f1 (entropy w (drawn w))),
              (''pleno_senior_chart_data'', markup f2 (entropy w (drawn w + 1))),
              (''junior_senior_chart_analytics'', markup f3 (entropy w (drawn w + 2))),
              (''pleno_senior_chart_analytics'', markup f4 (entropy w (drawn w + 3))),
              (''senior_comparison_chart'', markup f5 (entropy w (drawn w + 4)))] of
             Inl e \<Rightarrow> (Inl e, w')
           | Inr html_report \<Rightarrow>
               if writable w output_path
               then (Inr output_path, w'\<lparr>files := (files w)(output_path \<mapsto> html_report)\<rparr>)
               else (Inl (OSError output_path), w')))"
proof -
  obtain w' where run:
    "generate_interactive_report mean markup render data template_path output_path w =
       report_outcome mean markup render template_content output_path (heap w ! data) w w'"
    by (rule generate_interactive_report_run[OF assms])
  have names: "map bar_name (fig_data (create_bar_chart_figure d1 d2 ls t y)) =
      [''Juniors'', ''Seniors'']" for d1 d2 ls t y
    by (simp add: fig_data_create_bar_chart_figure)
  show ?thesis
    apply (intro exI conjI)
           apply (rule names)
          prefer 7
          apply (subst run)
          apply (unfold report_outcome_def)
          apply (rule refl)
         apply (simp_all add: report_figures_def Let_def fig_data_create_bar_chart_figure
        fig_layout_create_bar_chart_figure)
    done
qed

theorem pleno_charts_named_juniors_seniors_witness:
  "0 < length (heap example_world) \<and>
   files example_world ''templates/template.html'' = Some ''{{ senior_comparison_chart }}'' \<and>
   map bar_name (fig_data (create_bar_chart_figure [(''SQL'', 3)] [(''SQL'', 8)] [''SQL'']
     ''Plenos vs Seniors'' ''y'')) = [''Juniors'', ''Seniors'']"
proof -
  have hyps: "0 < length (heap example_world)"
    "files example_world ''templates/template.html'' = Some ''{{ senior_comparison_chart }}''"
    by (simp_all add: example_world_def)
  show ?thesis
    using pleno_charts_named_juniors_seniors[OF hyps, where ?data1.0 = "[(''SQL'', 3)]"
        and ?data2.0 = "[(''SQL'', 8)]" and labels = "[''SQL'']"
        and title = "''Plenos vs Seniors''" and yaxis_title = "''y''", THEN conjunct1] hyps
    by (intro conjI)
qed

section \<open>Determinism\<close>

text \<open>
  C5, as stated, says that two runs of the chart builder on the same mappings, categories and
  titles produce the same markup. They do not: \<open>to_html\<close> gives the chart a fresh
  identifier at every call, and the markup contains it. Two calls in a row, on the same
  arguments, with a serialiser that writes the identifier:
\<close>

theorem chart_markup_differs_between_runs:
  "fst (create_bar_chart example_markup [(''SQL'', 15)] [(''SQL'', 8)] [''SQL''] ''t'' ''y''
          example_world) \<noteq>
   fst (create_bar_chart example_markup [(''SQL'', 15)] [(''SQL'', 8)] [''SQL''] ''t'' ''y''
          (snd (create_bar_chart example_markup [(''SQL'', 15)] [(''SQL'', 8)] [''SQL''] ''t''
                  ''y'' example_world)))"
  by (simp add: create_bar_chart_eq example_markup_def example_world_def)

text \<open>
  C5, amended. The markup of the chart builder is the serialisation of a figure that depends
  on the arguments alone, under the identifier drawn at the call: two runs on the same
  arguments serialise the same figure and can differ only in the identifier. Two runs of
  \<open>generate_interactive_report\<close> on the same table and the same template content, in worlds
  that may differ in everything else (other frames, other files, identifiers drawn so far),
  compute the same mappings and render the same five figures, each under the identifier
  drawn for it in that run.
\<close>

theorem markup_deterministic_up_to_identifier:
  assumes "data < length (heap w)"
      and "data' < length (heap w')"
      and "heap w' ! data' = heap w ! data"
      and "files w template_path = Some template_content"
      and "files w' template_path = Some template_content"
  shows "(fst (create_bar_chart markup data1 data2 labels title yaxis_title w) =
            markup (create_bar_chart_figure data1 data2 labels title yaxis_title)
              (entropy w (drawn w)) \<and>
          fst (create_bar_chart markup data1 data2 labels title yaxis_title w') =
            markup (create_bar_chart_figure data1 data2 labels title yaxis_title)
              (entropy w' (drawn w'))) \<and>
     (\<forall>track level.
        fst (calculate_mean_scores mean (fst (boolean_index (\<lambda>r. CARGO r = track) data w)) level
               CATEGORIA (snd (boolean_index (\<lambda>r. CARGO r = track) data w))) =
        fst (calculate_mean_scores mean (fst (boolean_index (\<lambda>r. CARGO r = track) data' w')) level
               CATEGORIA (snd (boolean_index (\<lambda>r. CARGO r = track) data' w')))) \<and>
     (\<exists>f1 f2 f3 f4 f5 v v'.
        generate_interactive_report mean markup render data template_path output_path w =
          (case render template_content
             [(''junior_senior_chart_data'', markup f1 (entropy w (drawn w))),
              (''pleno_senior_chart_data'', markup f2 (entropy w (drawn w + 1))),
              (''junior_senior_chart_analytics'', markup f3 (entropy w (drawn w + 2))),
              (''pleno_senior_chart_analytics'', markup f4 (entropy w (drawn w + 3))),
              (''senior_comparison_chart'', markup f5 (entropy w (drawn w + 4)))] of
             Inl e \<Rightarrow> (Inl e, v)
           | Inr html_report \<Rightarrow>
               if writable w output_path
               then (Inr output_path, v\<lparr>files := (files w)(output_path \<mapsto> html_report)\<rparr>)
               else (Inl (OSError output_path), v)) \<and>
        generate_interactive_report mean markup render data' template_path output_path w' =
          (case render template_content
             [(''junior_senior_chart_data'', markup f1 (entropy w' (drawn w'))),
              (''pleno_senior_chart_data'', markup f2 (entropy w' (drawn w' + 1))),
              (''junior_senior_chart_analytics'', markup f3 (entropy w' (drawn w' + 2))),
              (''pleno_senior_chart_analytics'', markup f4 (entropy w' (drawn w' + 3))),
              (''senior_comparison_chart'', markup f5 (entropy w' (drawn w' + 4)))] of
             Inl e \<Rightarrow> (Inl e, v')
           | Inr html_report \<Rightarrow>
               if writable w' output_path
               then (Inr output_path, v'\<lparr>files := (files w')(output_path \<mapsto> html_report)\<rparr>)
               else (Inl (OSError output_path), v')))"
proof -
  obtain v where run:
    "generate_interactive_report mean markup render data template_path output_path w =
       report_outcome mean markup render template_content output_path (heap w ! data) w v"
    by (rule generate_interactive_report_run[OF assms(1,4)])
  obtain v' where run':
    "generate_interactive_report mean markup render data' template_path output_path w' =
       report_outcome mean markup render template_content output_path (heap w ! data) w' v'"
    using generate_interactive_report_run[OF assms(2,5)] assms(3) by metis
  have scores: "\<forall>track level.
        fst (calculate_mean_scores mean (fst (boolean_index (\<lambda>r. CARGO r = track) data w)) level
               CATEGORIA (snd (boolean_index (\<lambda>r. CARGO r = track) data w))) =
        fst (calculate_mean_scores mean (fst (boolean_index (\<lambda>r. CARGO r = track) data' w')) level
               CATEGORIA (snd (boolean_index (\<lambda>r. CARGO r = track) data' w')))"
    using assms(3) by (simp add: boolean_index_def calculate_mean_scores_eq)
  show ?thesis
    apply (intro exI conjI)
        apply (simp add: create_bar_chart_eq)
       apply (simp add: create_bar_chart_eq)
      apply (rule scores)
     apply (subst run)
     apply (unfold report_outcome_def)
     apply (rule refl)
    apply (subst run')
    apply (unfold report_outcome_def)
    apply (rule refl)
    done
qed

theorem markup_deterministic_up_to_identifier_witness:
  "0 < length (heap example_world) \<and> 1 < length (heap other_world) \<and>
   heap other_world ! 1 = heap example_world ! 0 \<and>
   files example_world ''templates/template.html'' = Some ''{{ senior_comparison_chart }}'' \<and>
   files other_world ''templates/template.html'' = Some ''{{ senior_comparison_chart }}'' \<and>
   fst (create_bar_chart example_markup [] [] [] ''t'' ''y'' example_world) =
     example_markup (create_bar_chart_figure [] [] [] ''t'' ''y'') ''chart-'' \<and>
   fst (create_bar_chart example_markup [] [] [] ''t'' ''y'' other_world) =
     example_markup (create_bar_chart_figure [] [] [] ''t'' ''y'') ''chart-iiiiiii''"
proof -
  have hyps: "0 < length (heap example_world)" "1 < length (heap other_world)"
    "heap other_world ! 1 = heap example_world ! 0"
    "files example_world ''templates/template.html'' = Some ''{{ senior_comparison_chart }}''"
    "files other_world ''templates/template.html'' = Some ''{{ senior_comparison_chart }}''"
    by (simp_all add: example_world_def other_world_def)
  have ids: "entropy example_world (drawn example_world) = ''chart-''"
    "entropy other_world (drawn other_world) = ''chart-iiiiiii''"
    by (simp_all add: example_world_def other_world_def eval_nat_numeral)
  show ?thesis
    using markup_deterministic_up_to_identifier[OF hyps, where markup = example_markup
        and ?data1.0 = "[]" and ?data2.0 = "[]" and labels = "[]" and title = "''t''"
        and yaxis_title = "''y''", THEN conjunct1] hyps ids
    by simp
qed

end
